theory Spec2Isabelle
  imports Main "HOL-Library.Multiset"
begin

section \<open>Strings of the Go standard library used by the widget\<close>

text \<open>
  A Go string is a sequence of bytes, here a \<^typ>\<open>string\<close>.
  \<^verbatim>\<open>strings.TrimRight(s, cutset)\<close> removes from the end of \<open>s\<close> every byte that is in
  \<open>cutset\<close> (for a cutset of ASCII bytes, the only kind the widget passes): the loop of
  \<^verbatim>\<open>trimRightByte\<close>, \<^verbatim>\<open>for len(s) > 0 && s[len(s)-1] == c { s = s[:len(s)-1] }\<close>.
\<close>

function TrimRight :: "string \<Rightarrow> string \<Rightarrow> string" where
  "TrimRight s cutset =
     (if s \<noteq> [] \<and> last s \<in> set cutset then TrimRight (butlast s) cutset else s)"
  by pat_completeness auto
termination
  by (relation "measure (\<lambda>(s, cutset). length s)") auto

declare TrimRight.simps [simp del]

text \<open>\<^verbatim>\<open>strings.HasSuffix(s, suffix)\<close>:
  \<^verbatim>\<open>len(s) >= len(suffix) && s[len(s)-len(suffix):] == suffix\<close>.\<close>

definition HasSuffix :: "string \<Rightarrow> string \<Rightarrow> bool" where
  "HasSuffix s suffix \<longleftrightarrow>
     length suffix \<le> length s \<and> drop (length s - length suffix) s = suffix"

section \<open>Numeric formatting (updateLabel, lines 116 to 123)\<close>

text \<open>
  Lines 118 to 122 of \<^verbatim>\<open>updateLabel\<close>: the trailing zeroes are removed from the whole
  price string, then one trailing decimal point.
\<close>

definition trimPrice :: "string \<Rightarrow> string" where
  "trimPrice price =
     (let price = TrimRight price ''0''
      in if HasSuffix price ''.'' then take (length price - 1) price else price)"

text \<open>Line 123: \<^verbatim>\<open>fmt.Sprintf("%s/USDT: %s", symbol, price)\<close>.\<close>

definition priceText :: "string \<Rightarrow> string \<Rightarrow> string" where
  "priceText symbol price = symbol @ ''/USDT: '' @ trimPrice price"

text \<open>
  The trimming as the specification words it, to compare the code with: strip the
  trailing \<open>0\<close> characters of the raw decimal string; if a trailing \<open>.\<close> remains after
  stripping, strip that too.
\<close>

definition stripTrailing :: "char \<Rightarrow> string \<Rightarrow> string" where
  "stripTrailing c s = rev (dropWhile (\<lambda>x. x = c) (rev s))"

definition specTrim :: "string \<Rightarrow> string" where
  "specTrim raw =
     (let t = stripTrailing (CHR ''0'') raw
      in if t \<noteq> [] \<and> last t = CHR ''.'' then butlast t else t)"

section \<open>encoding/json: the scanner\<close>

text \<open>
  The widget reads JSON twice: \<^verbatim>\<open>json.Unmarshal\<close> into a \<^verbatim>\<open>[]*string\<close> for the config file
  and \<^verbatim>\<open>json.NewDecoder(body).Decode\<close> into a \<^verbatim>\<open>map[string]string\<close> for a price reply.
  Both run the scanner of the package over the bytes and then store the value read into
  the Go value. The scanner is modelled in two passes over the bytes: the text is cut into
  tokens, and a pushdown machine (the scanner's \<^verbatim>\<open>parseState\<close> stack) assembles the first
  JSON value from them.
\<close>

abbreviation dquote :: char where "dquote \<equiv> CHR 0x22"
abbreviation backslash :: char where "backslash \<equiv> CHR 0x5C"

definition byte :: "char \<Rightarrow> nat" where
  "byte c = of_char c"

definition between :: "nat \<Rightarrow> nat \<Rightarrow> char \<Rightarrow> bool" where
  "between lo hi c \<longleftrightarrow> lo \<le> byte c \<and> byte c \<le> hi"

text \<open>\<^verbatim>\<open>isSpace\<close>: space, tab, carriage return, line feed.\<close>

definition isSpace :: "char \<Rightarrow> bool" where
  "isSpace c \<longleftrightarrow> c = CHR 0x20 \<or> c = CHR 0x09 \<or> c = CHR 0x0D \<or> c = CHR 0x0A"

definition isDigit :: "char \<Rightarrow> bool" where
  "isDigit c \<longleftrightarrow> between 0x30 0x39 c"

definition hexDigit :: "char \<Rightarrow> nat option" where
  "hexDigit c =
     (if between 0x30 0x39 c then Some (byte c - 0x30)
      else if between 0x61 0x66 c then Some (byte c - 0x61 + 10)
      else if between 0x41 0x46 c then Some (byte c - 0x41 + 10)
      else None)"

text \<open>
  \<^verbatim>\<open>getu4\<close>: the code unit of a \<^verbatim>\<open>\uXXXX\<close> escape at the head of \<open>s\<close>, or \<open>None\<close> (Go's -1).
\<close>

definition getu4 :: "string \<Rightarrow> nat option" where
  "getu4 s =
     (if length s < 6 \<or> s ! 0 \<noteq> backslash \<or> s ! 1 \<noteq> CHR ''u'' then None
      else (case map hexDigit (take 4 (drop 2 s)) of
              [Some a, Some b, Some c, Some d] \<Rightarrow> Some (((a * 16 + b) * 16 + c) * 16 + d)
            | _ \<Rightarrow> None))"

text \<open>
  The bytes of a string literal after its opening quote, up to the closing quote
  (\<^verbatim>\<open>stateInString\<close>, \<^verbatim>\<open>stateInStringEsc\<close>, \<^verbatim>\<open>stateInStringEscU\<close> and the three states after
  it): a control character, an unknown escape, a \<^verbatim>\<open>\u\<close> without four hexadecimal digits
  and a missing closing quote are syntax errors. The result is the literal's raw
  content, without the quotes.
\<close>

fun scanString :: "string \<Rightarrow> string option" where
  "scanString [] = None"
| "scanString (c # cs) =
     (if c = dquote then Some []
      else if c = backslash then
        (case cs of
           [] \<Rightarrow> None
         | e # r \<Rightarrow>
             if e = CHR ''u'' then
               (if getu4 (c # cs) = None then None
                else map_option (\<lambda>raw. c # e # raw) (scanString r))
             else if e \<in> set ''bfnrt/'' \<or> e = backslash \<or> e = dquote then
               map_option (\<lambda>raw. c # e # raw) (scanString r)
             else None)
      else if byte c < 0x20 then None
      else map_option (\<lambda>raw. c # raw) (scanString cs))"

text \<open>
  A number literal (\<^verbatim>\<open>stateNeg\<close>, \<^verbatim>\<open>state0\<close>, \<^verbatim>\<open>state1\<close>, \<^verbatim>\<open>stateDot\<close>, \<^verbatim>\<open>stateDot0\<close>, \<^verbatim>\<open>stateE\<close>,
  \<^verbatim>\<open>stateESign\<close>, \<^verbatim>\<open>stateE0\<close>): an optional minus sign, \<open>0\<close> or a digit from 1 to 9 followed
  by digits, an optional fraction with at least one digit, an optional exponent with at
  least one digit. Each part returns the bytes it read.
\<close>

definition scanInt :: "string \<Rightarrow> string option" where
  "scanInt cs =
     (case cs of
        [] \<Rightarrow> None
      | d # r \<Rightarrow>
          if d = CHR ''0'' then Some [d]
          else if between 0x31 0x39 d then Some (d # takeWhile isDigit r)
          else None)"

definition scanFrac :: "string \<Rightarrow> string option" where
  "scanFrac cs =
     (case cs of
        [] \<Rightarrow> Some []
      | d # r \<Rightarrow>
          if d = CHR ''.'' then
            (if takeWhile isDigit r = [] then None else Some (d # takeWhile isDigit r))
          else Some [])"

definition scanExp :: "string \<Rightarrow> string option" where
  "scanExp cs =
     (case cs of
        [] \<Rightarrow> Some []
      | e # r \<Rightarrow>
          if e = CHR ''e'' \<or> e = CHR ''E'' then
            (let sign = (case r of
                           [] \<Rightarrow> []
                         | s # _ \<Rightarrow> if s = CHR ''+'' \<or> s = CHR ''-'' then [s] else []);
                 ds = takeWhile isDigit (drop (length sign) r)
             in if ds = [] then None else Some (e # sign @ ds))
          else Some [])"

definition scanNumber :: "string \<Rightarrow> string option" where
  "scanNumber cs =
     (let neg = (case cs of [] \<Rightarrow> [] | c # _ \<Rightarrow> if c = CHR ''-'' then [c] else [])
      in case scanInt (drop (length neg) cs) of
           None \<Rightarrow> None
         | Some i \<Rightarrow>
             (case scanFrac (drop (length (neg @ i)) cs) of
                None \<Rightarrow> None
              | Some f \<Rightarrow>
                  (case scanExp (drop (length (neg @ i @ f)) cs) of
                     None \<Rightarrow> None
                   | Some e \<Rightarrow> Some (neg @ i @ f @ e))))"

section \<open>encoding/json: string literals\<close>

text \<open>
  \<^verbatim>\<open>utf8.EncodeRune\<close>: the UTF-8 bytes of a code point; a surrogate or a value above
  \<^verbatim>\<open>U+10FFFF\<close> is written as the replacement character \<^verbatim>\<open>U+FFFD\<close>.
\<close>

definition EncodeRune :: "nat \<Rightarrow> string" where
  "EncodeRune r =
     (if r < 0x80 then [char_of r]
      else if r < 0x800 then [char_of (0xC0 + r div 64), char_of (0x80 + r mod 64)]
      else if (0xD800 \<le> r \<and> r \<le> 0xDFFF) \<or> 0x10FFFF < r then
        [char_of (0xEF::nat), char_of (0xBF::nat), char_of (0xBD::nat)]
      else if r < 0x10000 then
        [char_of (0xE0 + r div 4096), char_of (0x80 + r div 64 mod 64),
         char_of (0x80 + r mod 64)]
      else
        [char_of (0xF0 + r div 262144), char_of (0x80 + r div 4096 mod 64),
         char_of (0x80 + r div 64 mod 64), char_of (0x80 + r mod 64)])"

text \<open>
  \<^verbatim>\<open>utf8.DecodeRune\<close>, as far as \<^verbatim>\<open>unquote\<close> needs it: the number of bytes of the well-formed
  encoding at the head of \<open>s\<close>, or 0 where Go returns \<^verbatim>\<open>(RuneError, 1)\<close>. \<open>follows\<close> checks
  the continuation bytes against their accepted ranges.
\<close>

fun follows :: "(nat \<times> nat) list \<Rightarrow> string \<Rightarrow> bool" where
  "follows [] cs = True"
| "follows (r # rs) [] = False"
| "follows ((lo, hi) # rs) (c # cs) = (between lo hi c \<and> follows rs cs)"

definition runeSize :: "string \<Rightarrow> nat" where
  "runeSize s =
     (case s of
        [] \<Rightarrow> 0
      | c # r \<Rightarrow>
          if byte c < 0x80 then 1
          else if between 0xC2 0xDF c then (if follows [(0x80, 0xBF)] r then 2 else 0)
          else if byte c = 0xE0 then
            (if follows [(0xA0, 0xBF), (0x80, 0xBF)] r then 3 else 0)
          else if byte c = 0xED then
            (if follows [(0x80, 0x9F), (0x80, 0xBF)] r then 3 else 0)
          else if between 0xE1 0xEF c then
            (if follows [(0x80, 0xBF), (0x80, 0xBF)] r then 3 else 0)
          else if byte c = 0xF0 then
            (if follows [(0x90, 0xBF), (0x80, 0xBF), (0x80, 0xBF)] r then 4 else 0)
          else if between 0xF1 0xF3 c then
            (if follows [(0x80, 0xBF), (0x80, 0xBF), (0x80, 0xBF)] r then 4 else 0)
          else if byte c = 0xF4 then
            (if follows [(0x80, 0x8F), (0x80, 0xBF), (0x80, 0xBF)] r then 4 else 0)
          else 0)"

text \<open>\<^verbatim>\<open>utf16.IsSurrogate\<close> and \<^verbatim>\<open>utf16.DecodeRune\<close> (\<open>None\<close> for its \<^verbatim>\<open>U+FFFD\<close>).\<close>

definition IsSurrogate :: "nat \<Rightarrow> bool" where
  "IsSurrogate r \<longleftrightarrow> 0xD800 \<le> r \<and> r < 0xE000"

definition utf16DecodeRune :: "nat \<Rightarrow> nat option \<Rightarrow> nat option" where
  "utf16DecodeRune r1 rr2 =
     (case rr2 of
        None \<Rightarrow> None
      | Some r2 \<Rightarrow>
          if 0xD800 \<le> r1 \<and> r1 < 0xDC00 \<and> 0xDC00 \<le> r2 \<and> r2 < 0xE000
          then Some ((r1 - 0xD800) * 1024 + (r2 - 0xDC00) + 0x10000)
          else None)"

text \<open>The byte an escape letter stands for (the quote, the backslash and the slash stand
  for themselves).\<close>

definition escByte :: "char \<Rightarrow> char option" where
  "escByte e =
     (if e = dquote \<or> e = backslash \<or> e = CHR ''/'' \<or> e = CHR 0x27 then Some e
      else if e = CHR ''b'' then Some (CHR 0x08)
      else if e = CHR ''f'' then Some (CHR 0x0C)
      else if e = CHR ''n'' then Some (CHR 0x0A)
      else if e = CHR ''r'' then Some (CHR 0x0D)
      else if e = CHR ''t'' then Some (CHR 0x09)
      else None)"

text \<open>
  \<^verbatim>\<open>unquoteBytes\<close> on the raw content of a literal: escapes are replaced by the bytes they
  stand for, a \<^verbatim>\<open>\u\<close> escape by the UTF-8 encoding of its code point (two escapes that form
  a surrogate pair by the encoding of the pair's code point, a lone surrogate by
  \<^verbatim>\<open>U+FFFD\<close>), and a byte that does not start a well-formed UTF-8 sequence by \<^verbatim>\<open>U+FFFD\<close>.
  \<open>None\<close> is Go's \<^verbatim>\<open>ok == false\<close>.
\<close>

function unquote :: "string \<Rightarrow> string option" where
  "unquote [] = Some []"
| "unquote (c # cs) =
     (if c = backslash then
        (case cs of
           [] \<Rightarrow> None
         | e # r \<Rightarrow>
             if e = CHR ''u'' then
               (case getu4 (c # cs) of
                  None \<Rightarrow> None
                | Some rr \<Rightarrow>
                    if IsSurrogate rr then
                      (case utf16DecodeRune rr (getu4 (drop 5 cs)) of
                         Some dec \<Rightarrow>
                           map_option (\<lambda>t. EncodeRune dec @ t) (unquote (drop 11 cs))
                       | None \<Rightarrow>
                           map_option (\<lambda>t. EncodeRune 0xFFFD @ t) (unquote (drop 5 cs)))
                    else map_option (\<lambda>t. EncodeRune rr @ t) (unquote (drop 5 cs)))
             else
               (case escByte e of
                  None \<Rightarrow> None
                | Some b \<Rightarrow> map_option (\<lambda>t. b # t) (unquote r)))
      else if c = dquote \<or> byte c < 0x20 then None
      else if byte c < 0x80 then map_option (\<lambda>t. c # t) (unquote cs)
      else if runeSize (c # cs) = 0 then
        map_option (\<lambda>t. EncodeRune 0xFFFD @ t) (unquote cs)
      else
        map_option (\<lambda>t. take (runeSize (c # cs)) (c # cs) @ t)
          (unquote (drop (runeSize (c # cs)) (c # cs))))"
  by pat_completeness auto
termination
  by (relation "measure length") auto

section \<open>encoding/json: values\<close>

datatype token =
    TLBrack | TRBrack | TLBrace | TRBrace | TComma | TColon
  | TStr string | TNum string | TTrue | TFalse | TNull
  | TBad

text \<open>
  The tokens of a text. \<open>TBad\<close> marks the byte at which the scanner reports a syntax
  error; nothing is read after it. A string token holds the unquoted string.
\<close>

function tokenize :: "string \<Rightarrow> token list" where
  "tokenize [] = []"
| "tokenize (c # cs) =
     (if isSpace c then tokenize cs
      else if c = CHR ''['' then TLBrack # tokenize cs
      else if c = CHR '']'' then TRBrack # tokenize cs
      else if c = CHR ''{'' then TLBrace # tokenize cs
      else if c = CHR ''}'' then TRBrace # tokenize cs
      else if c = CHR '','' then TComma # tokenize cs
      else if c = CHR '':'' then TColon # tokenize cs
      else if c = dquote then
        (case scanString cs of
           None \<Rightarrow> [TBad]
         | Some raw \<Rightarrow>
             (case unquote raw of
                None \<Rightarrow> [TBad]
              | Some str \<Rightarrow> TStr str # tokenize (drop (Suc (length raw)) cs)))
      else if c = CHR ''-'' \<or> isDigit c then
        (case scanNumber (c # cs) of
           None \<Rightarrow> [TBad]
         | Some lit \<Rightarrow> TNum lit # tokenize (drop (length lit - 1) cs))
      else if c = CHR ''t'' then
        (if take 3 cs = ''rue'' then TTrue # tokenize (drop 3 cs) else [TBad])
      else if c = CHR ''f'' then
        (if take 4 cs = ''alse'' then TFalse # tokenize (drop 4 cs) else [TBad])
      else if c = CHR ''n'' then
        (if take 3 cs = ''ull'' then TNull # tokenize (drop 3 cs) else [TBad])
      else [TBad])"
  by pat_completeness auto
termination
  by (relation "measure length") auto

datatype json =
    JNull | JBool bool | JNumber string | JString string
  | JArray "json list" | JObject "(string \<times> json) list"

text \<open>
  The scanner's stack: an array with the elements read so far (last first), an object
  with the members read so far, an object whose next value belongs to the key given.
  \<open>expect\<close> is the scanner's \<^verbatim>\<open>step\<close>: \<^verbatim>\<open>stateBeginValue\<close>, \<^verbatim>\<open>stateBeginValueOrEmpty\<close>,
  \<^verbatim>\<open>stateBeginStringOrEmpty\<close>, \<^verbatim>\<open>stateBeginString\<close>, and \<^verbatim>\<open>stateEndValue\<close> after a key
  and after a value.
\<close>

datatype frame =
    InArray "json list"
  | InObject "(string \<times> json) list"
  | InField "(string \<times> json) list" string

datatype expect = Value | ValueOrEmpty | KeyOrEmpty | Key | Colon | CommaOrEnd

datatype scan = Continue expect "frame list" | End json | Invalid

definition maxNestingDepth :: nat where
  "maxNestingDepth = 10000"

text \<open>A value has been read: it ends the text, or joins the array or object around it.\<close>

fun endValue :: "json \<Rightarrow> frame list \<Rightarrow> scan" where
  "endValue v [] = End v"
| "endValue v (InArray acc # st) = Continue CommaOrEnd (InArray (v # acc) # st)"
| "endValue v (InField ms k # st) = Continue CommaOrEnd (InObject ((k, v) # ms) # st)"
| "endValue v (InObject ms # st) = Invalid"

text \<open>\<^verbatim>\<open>pushParseState\<close>: one more level of nesting, refused beyond \<open>maxNestingDepth\<close>.\<close>

definition pushParseState :: "expect \<Rightarrow> frame \<Rightarrow> frame list \<Rightarrow> scan" where
  "pushParseState e f st =
     (if Suc (length st) \<le> maxNestingDepth then Continue e (f # st) else Invalid)"

definition beginValue :: "token \<Rightarrow> frame list \<Rightarrow> scan" where
  "beginValue t st =
     (case t of
        TStr str \<Rightarrow> endValue (JString str) st
      | TNum lit \<Rightarrow> endValue (JNumber lit) st
      | TTrue \<Rightarrow> endValue (JBool True) st
      | TFalse \<Rightarrow> endValue (JBool False) st
      | TNull \<Rightarrow> endValue JNull st
      | TLBrack \<Rightarrow> pushParseState ValueOrEmpty (InArray []) st
      | TLBrace \<Rightarrow> pushParseState KeyOrEmpty (InObject []) st
      | _ \<Rightarrow> Invalid)"

definition endArray :: "frame list \<Rightarrow> scan" where
  "endArray st =
     (case st of InArray acc # st' \<Rightarrow> endValue (JArray (rev acc)) st' | _ \<Rightarrow> Invalid)"

definition endObject :: "frame list \<Rightarrow> scan" where
  "endObject st =
     (case st of InObject ms # st' \<Rightarrow> endValue (JObject (rev ms)) st' | _ \<Rightarrow> Invalid)"

definition beginString :: "token \<Rightarrow> frame list \<Rightarrow> scan" where
  "beginString t st =
     (case (t, st) of
        (TStr k, InObject ms # st') \<Rightarrow> Continue Colon (InField ms k # st')
      | _ \<Rightarrow> Invalid)"

fun step :: "expect \<Rightarrow> frame list \<Rightarrow> token \<Rightarrow> scan" where
  "step Value st t = beginValue t st"
| "step ValueOrEmpty st t = (if t = TRBrack then endArray st else beginValue t st)"
| "step KeyOrEmpty st t = (if t = TRBrace then endObject st else beginString t st)"
| "step Key st t = beginString t st"
| "step Colon st t = (if t = TColon then Continue Value st else Invalid)"
| "step CommaOrEnd st t =
     (case (t, st) of
        (TComma, InArray acc # st') \<Rightarrow> Continue Value st
      | (TComma, InObject ms # st') \<Rightarrow> Continue Key st
      | (TRBrack, _) \<Rightarrow> endArray st
      | (TRBrace, _) \<Rightarrow> endObject st
      | _ \<Rightarrow> Invalid)"

text \<open>
  The first value of a token list and the tokens after it; \<open>None\<close> is a syntax error or
  a text that ends inside a value.
\<close>

fun scanValue :: "expect \<Rightarrow> frame list \<Rightarrow> token list \<Rightarrow> (json \<times> token list) option" where
  "scanValue e st [] = None"
| "scanValue e st (t # ts) =
     (case step e st t of
        End v \<Rightarrow> Some (v, ts)
      | Invalid \<Rightarrow> None
      | Continue e' st' \<Rightarrow> scanValue e' st' ts)"

text \<open>
  \<^verbatim>\<open>checkValid\<close>, the validation \<^verbatim>\<open>Unmarshal\<close> runs before it stores anything: the whole text
  is one value, with only white space around it.
\<close>

definition checkValid :: "string \<Rightarrow> json option" where
  "checkValid data =
     (case scanValue Value [] (tokenize data) of
        Some (v, []) \<Rightarrow> Some v
      | _ \<Rightarrow> None)"

text \<open>
  \<^verbatim>\<open>Decoder.readValue\<close> on a stream that holds \<open>data\<close>: the first value of the stream; what
  follows the value is not looked at.
\<close>

definition readValue :: "string \<Rightarrow> json option" where
  "readValue data = map_option fst (scanValue Value [] (tokenize data))"

section \<open>encoding/json: storing a value into a Go value\<close>

text \<open>
  Go's \<^verbatim>\<open>error\<close> values. The text of an error (its \<^verbatim>\<open>Error()\<close> method) is decided by the
  package that made it, so the functions that print an error take the method as their
  parameter \<open>describe\<close>. A syntax error of \<^verbatim>\<open>Unmarshal\<close> and the error of a stream that holds
  no complete value (\<^verbatim>\<open>io.EOF\<close>, \<^verbatim>\<open>io.ErrUnexpectedEOF\<close> or a syntax error) carry the text that
  was read, a type error carries the JSON value that does not fit the Go type,
  \<open>Errorf\<close> is \<^verbatim>\<open>fmt.Errorf\<close> with its format and the error it wraps.
\<close>

datatype error =
    SyntaxError string
  | DecodeError string
  | UnmarshalTypeError json
  | OSError string
  | NetError string
  | Errorf string error

text \<open>
  An element of a \<^verbatim>\<open>[]*string\<close>: \<^verbatim>\<open>null\<close> leaves the pointer nil (\<open>None\<close>); a string is
  stored behind a new pointer; for any other value the pointer is allocated, the string
  behind it stays empty and a type error is recorded.
\<close>

fun storePtr :: "json \<Rightarrow> string option" where
  "storePtr JNull = None"
| "storePtr (JString str) = Some str"
| "storePtr v = Some []"

fun fitsString :: "json \<Rightarrow> bool" where
  "fitsString JNull = True"
| "fitsString (JString str) = True"
| "fitsString v = False"

text \<open>The first type error recorded while the values are stored (\<^verbatim>\<open>saveError\<close>).\<close>

definition savedError :: "json list \<Rightarrow> error option" where
  "savedError vs = map_option UnmarshalTypeError (find (\<lambda>v. \<not> fitsString v) vs)"

text \<open>
  \<^verbatim>\<open>json.Unmarshal(data, &symbols)\<close> for a nil \<^verbatim>\<open>symbols []*string\<close>: the slice afterwards and
  the error returned. A text that is not valid JSON stores nothing. An array stores
  every element, also after a type error; \<^verbatim>\<open>null\<close> leaves the slice nil (the empty list);
  any other value is a type error.
\<close>

definition Unmarshal :: "string \<Rightarrow> string option list \<times> error option" where
  "Unmarshal data =
     (case checkValid data of
        None \<Rightarrow> ([], Some (SyntaxError data))
      | Some (JArray vs) \<Rightarrow> (map storePtr vs, savedError vs)
      | Some JNull \<Rightarrow> ([], None)
      | Some v \<Rightarrow> ([], Some (UnmarshalTypeError v)))"

text \<open>
  The members of an object stored into a \<^verbatim>\<open>map[string]string\<close>, in the order of the text
  (a later member with the same key replaces the earlier one): a string is stored, \<^verbatim>\<open>null\<close>
  and a value of any other kind store the empty string.
\<close>

fun storeString :: "json \<Rightarrow> string" where
  "storeString (JString str) = str"
| "storeString v = []"

fun storeMembers :: "(string \<rightharpoonup> string) \<Rightarrow> (string \<times> json) list \<Rightarrow> (string \<rightharpoonup> string)" where
  "storeMembers m [] = m"
| "storeMembers m ((k, v) # ms) = storeMembers (m(k \<mapsto> storeString v)) ms"

text \<open>
  \<^verbatim>\<open>json.NewDecoder(body).Decode(&data)\<close> for a nil \<^verbatim>\<open>data map[string]string\<close> and a body
  that was received whole: the map afterwards (a nil map reads as the empty map) and
  the error returned.
\<close>

definition Decode :: "string \<Rightarrow> (string \<rightharpoonup> string) \<times> error option" where
  "Decode body =
     (case readValue body of
        None \<Rightarrow> (Map.empty, Some (DecodeError body))
      | Some (JObject ms) \<Rightarrow> (storeMembers Map.empty ms, savedError (map snd ms))
      | Some JNull \<Rightarrow> (Map.empty, None)
      | Some v \<Rightarrow> (Map.empty, Some (UnmarshalTypeError v)))"

section \<open>encoding/json: Marshal of a string slice\<close>

definition hex :: "nat \<Rightarrow> char" where
  "hex n = ''0123456789abcdef'' ! (n mod 16)"

text \<open>\<^verbatim>\<open>htmlSafeSet\<close>: the ASCII bytes written as they are.\<close>

definition htmlSafe :: "char \<Rightarrow> bool" where
  "htmlSafe c \<longleftrightarrow>
     0x20 \<le> byte c \<and> byte c < 0x80 \<and> c \<noteq> dquote \<and> c \<noteq> backslash \<and>
     c \<noteq> CHR ''<'' \<and> c \<noteq> CHR ''>'' \<and> c \<noteq> CHR ''&''"

definition escapeByte :: "char \<Rightarrow> string" where
  "escapeByte c =
     (if c = backslash \<or> c = dquote then [backslash, c]
      else if c = CHR 0x08 then [backslash, CHR ''b'']
      else if c = CHR 0x0C then [backslash, CHR ''f'']
      else if c = CHR 0x0A then [backslash, CHR ''n'']
      else if c = CHR 0x0D then [backslash, CHR ''r'']
      else if c = CHR 0x09 then [backslash, CHR ''t'']
      else [backslash, CHR ''u'', CHR ''0'', CHR ''0'', hex (byte c div 16), hex (byte c)])"

text \<open>
  \<^verbatim>\<open>appendString\<close> with HTML escaping, between the quotes: a byte that does not start a
  well-formed UTF-8 sequence is written as \<^verbatim>\<open>\ufffd\<close>, the line and paragraph separators
  \<^verbatim>\<open>U+2028\<close> and \<^verbatim>\<open>U+2029\<close> as escapes. Backspace and form feed are written with
  their letters, as Go 1.22 and later do (earlier versions write \<^verbatim>\<open>\u0008\<close> and
  \<^verbatim>\<open>\u000c\<close>; both forms read back as the same byte).
\<close>

function appendString :: "string \<Rightarrow> string" where
  "appendString [] = []"
| "appendString (c # cs) =
     (if byte c < 0x80 then
        (if htmlSafe c then c # appendString cs else escapeByte c @ appendString cs)
      else if runeSize (c # cs) = 0 then
        backslash # ''ufffd'' @ appendString cs
      else if take 3 (c # cs) = [CHR 0xE2, CHR 0x80, CHR 0xA8] then
        backslash # ''u2028'' @ appendString (drop 2 cs)
      else if take 3 (c # cs) = [CHR 0xE2, CHR 0x80, CHR 0xA9] then
        backslash # ''u2029'' @ appendString (drop 2 cs)
      else take (runeSize (c # cs)) (c # cs) @ appendString (drop (runeSize (c # cs)) (c # cs)))"
  by pat_completeness auto
termination
  by (relation "measure length") auto

definition quoteString :: "string \<Rightarrow> string" where
  "quoteString str = dquote # appendString str @ [dquote]"

fun joinWith :: "string \<Rightarrow> string list \<Rightarrow> string" where
  "joinWith sep [] = []"
| "joinWith sep [x] = x"
| "joinWith sep (x # y # zs) = x @ sep @ joinWith sep (y # zs)"

text \<open>\<^verbatim>\<open>json.Marshal\<close> of a non-nil \<^verbatim>\<open>[]string\<close>; it has no error to return.\<close>

definition Marshal :: "string list \<Rightarrow> string" where
  "Marshal xs = ''['' @ joinWith '','' (map quoteString xs) @ '']''"

section \<open>The configuration file (main.go, lines 159 to 213)\<close>

definition defaultSymbols :: "string list" where
  "defaultSymbols = [''BTC'', ''ETH'', ''SOL'']"

text \<open>
  What the program sees of its surroundings when it loads the configuration: the home
  directory (\<^verbatim>\<open>os.UserHomeDir\<close>, whose error the code drops: the path is then empty), for every
  path what \<^verbatim>\<open>os.Open\<close> and \<^verbatim>\<open>io.ReadAll\<close> give, for every path the error of \<^verbatim>\<open>os.WriteFile\<close>
  if it fails (the file system is then left as it was), and the bytes written to the
  standard output.
\<close>

datatype osFile = Contents string | ReadFails error

datatype node = NotExist | OpenFails error | Opens osFile

record world =
  homeDir :: string
  files :: "string \<Rightarrow> node"
  writeFails :: "string \<Rightarrow> error option"
  stdout :: string

text \<open>A call that returns, or a run-time panic (here: a nil pointer dereference).\<close>

datatype 'a outcome = Returns 'a | Panics

abbreviation newline :: char where "newline \<equiv> CHR 0x0A"

definition Print :: "string \<Rightarrow> world \<Rightarrow> world" where
  "Print text w = w\<lparr>stdout := stdout w @ text\<rparr>"

text \<open>\<^verbatim>\<open>%v\<close> of a string slice: the elements between brackets, separated by spaces.\<close>

definition formatSlice :: "string list \<Rightarrow> string" where
  "formatSlice xs = ''['' @ joinWith '' '' xs @ '']''"

text \<open>\<^verbatim>\<open>createDefaultConfig\<close> (lines 193 to 202).\<close>

definition createDefaultConfig :: "string \<Rightarrow> world \<Rightarrow> error option \<times> world" where
  "createDefaultConfig path w =
     (let defaultConfig = Marshal defaultSymbols
      in case writeFails w path of
           Some err \<Rightarrow> (Some (Errorf ''create config file: %w'' err), w)
         | None \<Rightarrow> (None, w\<lparr>files := (files w)(path := Opens (Contents defaultConfig))\<rparr>))"

text \<open>
  \<^verbatim>\<open>parseSymbolsFromConfig\<close> (lines 205 to 213): the error of \<^verbatim>\<open>json.Unmarshal\<close> is dropped at
  line 211, the slice is returned as \<^verbatim>\<open>Unmarshal\<close> left it.
\<close>

definition parseSymbolsFromConfig :: "osFile \<Rightarrow> string option list \<times> error option" where
  "parseSymbolsFromConfig configFile =
     (case configFile of
        ReadFails err \<Rightarrow> ([], Some (Errorf (''can'' @ [CHR 0x27] @ ''t marshal default symbols: %w'') err))
      | Contents byteValue \<Rightarrow> (fst (Unmarshal byteValue), None))"

text \<open>
  The loop of lines 185 to 188, \<^verbatim>\<open>strings = append(strings, *strPtr)\<close>: a nil pointer
  panics.
\<close>

fun derefAll :: "string list \<Rightarrow> string option list \<Rightarrow> string list outcome" where
  "derefAll strings [] = Returns strings"
| "derefAll strings (None # stringPointers) = Panics"
| "derefAll strings (Some str # stringPointers) = derefAll (strings @ [str]) stringPointers"

definition configPath :: "world \<Rightarrow> string" where
  "configPath w = homeDir w @ ''/.pricetrack.json''"

text \<open>
  \<^verbatim>\<open>loadSymbolsFromConfig\<close> (lines 162 to 190): what the call returns (the symbols and the
  error, a nil slice being the empty list) and the surroundings afterwards.
\<close>

definition loadSymbolsFromConfig ::
  "(error \<Rightarrow> string) \<Rightarrow> world \<Rightarrow> (string list \<times> error option) outcome \<times> world" where
  "loadSymbolsFromConfig describe w =
     (case files w (configPath w) of
        NotExist \<Rightarrow>
          (let w1 = Print (''Config file not found, creating a new one with default symbols: ''
                      @ formatSlice defaultSymbols @ [newline]) w;
               w2 = snd (createDefaultConfig (configPath w) w1)
           in (Returns (defaultSymbols, None), w2))
      | OpenFails err \<Rightarrow>
          (Returns (defaultSymbols, None),
           Print (''Error opening config file: '' @ describe err @ [newline]) w)
      | Opens configFile \<Rightarrow>
          (case parseSymbolsFromConfig configFile of
             (stringPointers, Some err) \<Rightarrow> (Returns ([], Some (Errorf ''%w'' err)), w)
           | (stringPointers, None) \<Rightarrow>
               (case derefAll [] stringPointers of
                  Panics \<Rightarrow> (Panics, w)
                | Returns strings \<Rightarrow> (Returns (strings, None), w))))"

text \<open>
  \<^verbatim>\<open>main\<close> (lines 215 to 224) up to the creation of the widget: \<^verbatim>\<open>log.Fatal\<close> on an error of
  the load, else the widget is made for the symbols loaded.
\<close>

datatype startup = Fatal error | Widget "string list" | Panicked

definition main :: "(error \<Rightarrow> string) \<Rightarrow> world \<Rightarrow> startup" where
  "main describe w =
     (case fst (loadSymbolsFromConfig describe w) of
        Panics \<Rightarrow> Panicked
      | Returns (symbols, Some err) \<Rightarrow> Fatal err
      | Returns (symbols, None) \<Rightarrow> Widget symbols)"

text \<open>
  A world to run examples in: the home directory is \<^verbatim>\<open>/home/user\<close>, the configuration
  file is the node given, no other file exists and every write succeeds.
\<close>

definition exampleWorld :: "node \<Rightarrow> world" where
  "exampleWorld n =
     \<lparr>homeDir = ''/home/user'',
      files = (\<lambda>path. if path = ''/home/user/.pricetrack.json'' then n else NotExist),
      writeFails = (\<lambda>path. None),
      stdout = []\<rparr>"

section \<open>The widget and its refresh cycle (main.go, lines 20 to 125)\<close>

text \<open>
  The fields of \<^verbatim>\<open>BinanceWidget\<close> that the refresh cycle uses. The \<^verbatim>\<open>QLabel\<close> objects are
  kept in \<open>labels\<close>, each by the text it shows, in the order in which the layout got
  them; \<open>priceLabels\<close> maps a symbol to the index of its label, as the Go map holds a
  pointer to it.
\<close>

record BinanceWidget =
  apiUrl :: string
  priceLabels :: "string \<rightharpoonup> nat"
  symbols :: "string list"
  labels :: "string list"

text \<open>
  The loop of \<^verbatim>\<open>initUI\<close> (lines 66 to 71): one new label per entry of the symbol list,
  added to the layout and stored in the map under its symbol.
\<close>

fun addLabels :: "string list \<Rightarrow> BinanceWidget \<Rightarrow> BinanceWidget" where
  "addLabels [] w = w"
| "addLabels (symbol # rest) w =
     addLabels rest
       (w\<lparr>priceLabels := (priceLabels w)(symbol \<mapsto> length (labels w)),
          labels := labels w @ [''Loading...'']\<rparr>)"

text \<open>
  \<^verbatim>\<open>NewBinanceWidget\<close> with \<^verbatim>\<open>initUI\<close> up to line 73, before the first call of
  \<^verbatim>\<open>updatePrice\<close>.
\<close>

definition NewBinanceWidget :: "string list \<Rightarrow> BinanceWidget" where
  "NewBinanceWidget syms =
     addLabels syms
       \<lparr>apiUrl = ''https://api.binance.com/api/v3/ticker/price?symbol='',
        priceLabels = Map.empty, symbols = syms, labels = []\<rparr>"

text \<open>
  \<^verbatim>\<open>w.priceLabels[symbol].SetText(text)\<close>. For a symbol that is not a key the Go map gives
  a nil label, on which the call of the binding does nothing; \<open>addLabels\<close> gives every
  symbol of the widget its label.
\<close>

definition SetText :: "string \<Rightarrow> string \<Rightarrow> BinanceWidget \<Rightarrow> BinanceWidget" where
  "SetText symbol text w =
     (case priceLabels w symbol of
        None \<Rightarrow> w
      | Some l \<Rightarrow> w\<lparr>labels := (labels w)[l := text]\<rparr>)"

text \<open>
  The network during one refresh cycle: for a URL, the error of \<^verbatim>\<open>http.Get\<close> or the
  response, with its status code and its body, received whole. The code never reads
  the status code.
\<close>

record response =
  statusCode :: nat
  body :: string

type_synonym network = "string \<Rightarrow> error + response"

text \<open>
  \<^verbatim>\<open>updateLabel\<close> (lines 103 to 125). \<^verbatim>\<open>data["price"]\<close> is the empty string for a missing
  key. Line 124 sets the point size on a copy of the font and leaves the label as it is.
\<close>

definition updateLabel ::
  "(error \<Rightarrow> string) \<Rightarrow> network \<Rightarrow> string \<Rightarrow> BinanceWidget \<Rightarrow> BinanceWidget" where
  "updateLabel describe get symbol w =
     (let url = apiUrl w @ symbol @ ''USDT''
      in case get url of
           Inl err \<Rightarrow> SetText symbol (''Error: '' @ describe err) w
         | Inr resp \<Rightarrow>
             (case Decode (body resp) of
                (data, Some err) \<Rightarrow> SetText symbol (''Error: '' @ describe err) w
              | (data, None) \<Rightarrow>
                  (let price = (case data ''price'' of None \<Rightarrow> [] | Some p \<Rightarrow> p)
                   in SetText symbol (priceText symbol price) w)))"




text \<open>
  What \<open>addLabels\<close> sets up and the refresh cycle relies on: every symbol of the widget
  has a label of the layout, and no other symbol of the widget has the same one.
\<close>

definition labelled :: "BinanceWidget \<Rightarrow> bool" where
  "labelled w \<longleftrightarrow>
     list_all
       (\<lambda>symbol.
          case priceLabels w symbol of
            None \<Rightarrow> False
          | Some l \<Rightarrow>
              l < length (labels w) \<and>
              list_all (\<lambda>other. priceLabels w other = Some l \<longrightarrow> other = symbol) (symbols w))
       (symbols w)"

section \<open>The refresh cycle (updatePrice, lines 88 to 98)\<close>

text \<open>
  \<^verbatim>\<open>updatePrice\<close> starts one goroutine per entry of the symbol list and waits for all of
  them on a \<^verbatim>\<open>sync.WaitGroup\<close>. The goroutines run in any order, so the call is a
  transition system. A goroutine is \<open>Started\<close> until its \<^verbatim>\<open>updateLabel\<close> has returned
  and \<open>Updated\<close> from then until its deferred \<^verbatim>\<open>wg.Done()\<close> has run. The state of a call
  holds the widget, the symbols the loop of line 90 has not reached yet, the
  goroutines that have not finished, the counter of the wait group, the symbols whose
  goroutine has finished (in the order in which they finished), and whether the call has
  returned. Once the loop is over the caller is in \<^verbatim>\<open>wg.Wait()\<close>.
\<close>

datatype goroutine = Started string | Updated string


record cycle =
  widget :: BinanceWidget
  todo :: "string list"
  goroutines :: "goroutine list"
  counter :: int
  finished :: "string list"
  returned :: bool

definition enter :: "BinanceWidget \<Rightarrow> cycle" where
  "enter w =
     \<lparr>widget = w, todo = symbols w, goroutines = [], counter = 0, finished = [],
      returned = False\<rparr>"

text \<open>
  One step of a call: the loop starts the next goroutine (\<^verbatim>\<open>wg.Add(1)\<close> and \<^verbatim>\<open>go\<close>, lines
  91 and 92); a goroutine runs its \<^verbatim>\<open>updateLabel\<close> (line 94); a goroutine runs its deferred
  \<^verbatim>\<open>wg.Done()\<close> (line 93) and is over; \<^verbatim>\<open>wg.Wait()\<close> returns, which it does only when the
  counter is zero (line 97). \<^verbatim>\<open>updateLabel\<close> is one step: it reads fields that no goroutine
  writes and writes one label once. A request that never returns is a goroutine that
  never takes its step.
\<close>

inductive cycleStep :: "(error \<Rightarrow> string) \<Rightarrow> network \<Rightarrow> cycle \<Rightarrow> cycle \<Rightarrow> bool"
  for describe :: "error \<Rightarrow> string" and get :: network
where
  launch:
    "todo c = symbol # rest \<Longrightarrow> \<not> returned c \<Longrightarrow>
     cycleStep describe get c
       (c\<lparr>todo := rest, counter := counter c + 1,
          goroutines := goroutines c @ [Started symbol]\<rparr>)"
| run:
    "goroutines c = gs @ Started symbol # gs' \<Longrightarrow>
     cycleStep describe get c
       (c\<lparr>widget := updateLabel describe get symbol (widget c),
          goroutines := gs @ Updated symbol # gs'\<rparr>)"
| finish:
    "goroutines c = gs @ Updated symbol # gs' \<Longrightarrow>
     cycleStep describe get c
       (c\<lparr>goroutines := gs @ gs', counter := counter c - 1,
          finished := finished c @ [symbol]\<rparr>)"
| wait:
    "todo c = [] \<Longrightarrow> counter c = 0 \<Longrightarrow> \<not> returned c \<Longrightarrow>
     cycleStep describe get c (c\<lparr>returned := True\<rparr>)"


section \<open>Properties of the numeric formatting\<close>

lemma TrimRight_dropWhile:
  "TrimRight s cutset = rev (dropWhile (\<lambda>c. c \<in> set cutset) (rev s))"
proof (induction s cutset rule: TrimRight.induct)
  case (1 s cutset)
  show ?case
  proof (cases s rule: rev_cases)
    case Nil
    then show ?thesis by (subst TrimRight.simps) simp
  next
    case (snoc ys y)
    show ?thesis
    proof (cases "y \<in> set cutset")
      case True
      have "TrimRight s cutset = TrimRight ys cutset"
        using True snoc by (subst TrimRight.simps) simp
      also have "\<dots> = rev (dropWhile (\<lambda>c. c \<in> set cutset) (rev ys))"
        using 1 True snoc by simp
      finally show ?thesis using True snoc by simp
    next
      case False
      then have "TrimRight s cutset = s"
        using snoc by (subst TrimRight.simps) simp
      then show ?thesis using False snoc by simp
    qed
  qed
qed

lemma HasSuffix_dot: "HasSuffix s ''.'' \<longleftrightarrow> s \<noteq> [] \<and> last s = CHR ''.''"
proof (cases s rule: rev_cases)
  case Nil
  then show ?thesis by (simp add: HasSuffix_def)
next
  case (snoc ys y)
  then show ?thesis by (auto simp: HasSuffix_def)
qed

lemma trimPrice_specTrim: "trimPrice price = specTrim price"
  by (simp add: trimPrice_def specTrim_def stripTrailing_def TrimRight_dropWhile
      HasSuffix_dot Let_def butlast_conv_take)

lemma stripTrailing_decomp:
  "\<exists>n. s = stripTrailing c s @ replicate n c"
proof -
  have "rev s = takeWhile (\<lambda>x. x = c) (rev s) @ dropWhile (\<lambda>x. x = c) (rev s)"
    by simp
  then have "s = rev (dropWhile (\<lambda>x. x = c) (rev s)) @ rev (takeWhile (\<lambda>x. x = c) (rev s))"
    by (metis rev_append rev_rev_ident)
  moreover have "\<exists>n. rev (takeWhile (\<lambda>x. x = c) (rev s)) = replicate n c"
  proof -
    have "\<forall>x \<in> set (rev (takeWhile (\<lambda>x. x = c) (rev s))). x = c"
      by (auto dest: set_takeWhileD)
    then show ?thesis
      by (metis replicate_length_same)
  qed
  ultimately show ?thesis unfolding stripTrailing_def by metis
qed

lemma specTrim_shape:
  "(\<exists>n. raw = specTrim raw @ replicate n (CHR ''0'')) \<or>
   (\<exists>n. raw = specTrim raw @ CHR ''.'' # replicate n (CHR ''0''))"
proof -
  obtain n where n: "raw = stripTrailing (CHR ''0'') raw @ replicate n (CHR ''0'')"
    using stripTrailing_decomp by blast
  show ?thesis
  proof (cases "stripTrailing (CHR ''0'') raw \<noteq> [] \<and> last (stripTrailing (CHR ''0'') raw) = CHR ''.''")
    case True
    then have "stripTrailing (CHR ''0'') raw = specTrim raw @ [CHR ''.'']"
      using append_butlast_last_id [of "stripTrailing (CHR ''0'') raw"]
      by (simp add: specTrim_def Let_def)
    with n have "raw = specTrim raw @ CHR ''.'' # replicate n (CHR ''0'')" by simp
    then show ?thesis by blast
  next
    case False
    then have "specTrim raw = stripTrailing (CHR ''0'') raw"
      by (auto simp: specTrim_def Let_def)
    with n show ?thesis by auto
  qed
qed

lemma specTrim_integer_part:
  assumes "CHR ''.'' \<in> set raw"
  shows "takeWhile (\<lambda>c. c \<noteq> CHR ''.'') (specTrim raw) = takeWhile (\<lambda>c. c \<noteq> CHR ''.'') raw"
  using specTrim_shape [of raw]
proof (elim disjE exE)
  fix n assume r: "raw = specTrim raw @ replicate n (CHR ''0'')"
  have "CHR ''.'' \<in> set (specTrim raw)"
  proof -
    have "CHR ''.'' \<in> set (specTrim raw @ replicate n (CHR ''0''))" using assms r by simp
    then show ?thesis by auto
  qed
  then have "takeWhile (\<lambda>c. c \<noteq> CHR ''.'') (specTrim raw @ replicate n (CHR ''0'')) =
      takeWhile (\<lambda>c. c \<noteq> CHR ''.'') (specTrim raw)"
    by (intro takeWhile_append1[where x="CHR ''.''"]) auto
  with r show ?thesis by simp
next
  fix n assume r: "raw = specTrim raw @ CHR ''.'' # replicate n (CHR ''0'')"
  have "takeWhile (\<lambda>c. c \<noteq> CHR ''.'') (specTrim raw @ CHR ''.'' # replicate n (CHR ''0'')) =
      takeWhile (\<lambda>c. c \<noteq> CHR ''.'') (specTrim raw)"
  proof (cases "CHR ''.'' \<in> set (specTrim raw)")
    case True
    then show ?thesis by (intro takeWhile_append1[where x="CHR ''.''"]) auto
  next
    case False
    then have no_dot: "\<And>x. x \<in> set (specTrim raw) \<Longrightarrow> x \<noteq> CHR ''.''"
      by auto
    then have a: "takeWhile (\<lambda>c. c \<noteq> CHR ''.'') (specTrim raw) = specTrim raw"
      by (simp add: takeWhile_eq_all_conv)
    have b: "takeWhile (\<lambda>c. c \<noteq> CHR ''.'')
        (specTrim raw @ CHR ''.'' # replicate n (CHR ''0'')) = specTrim raw"
      using no_dot by (simp add: takeWhile_append2)
    show ?thesis by (simp only: a b)
  qed
  with r show ?thesis by simp
qed

lemma stripTrailing_snoc: "stripTrailing c (s @ [c]) = stripTrailing c s"
  by (simp add: stripTrailing_def)

lemma length_stripTrailing: "length (stripTrailing c s) \<le> length s"
  by (simp add: stripTrailing_def length_dropWhile_le [of _ "rev s", simplified])

lemma length_specTrim: "length (specTrim raw) \<le> length (stripTrailing (CHR ''0'') raw)"
  by (simp add: specTrim_def Let_def)

lemma SetText_label:
  assumes "priceLabels w symbol = Some l" and "l < length (labels w)"
  shows "labels (SetText symbol text w) ! l = text"
  using assms by (simp add: SetText_def)

lemma updateLabel_price:
  assumes "get (apiUrl w @ symbol @ ''USDT'') = Inr resp"
    and "Decode (body resp) = (data, None)"
    and "data ''price'' = Some price"
  shows "updateLabel describe get symbol w = SetText symbol (priceText symbol price) w"
  using assms by (simp add: updateLabel_def)

text \<open>
  Claim C7. For a raw price that contains a decimal point, whenever the price query of a
  symbol succeeds the label of the symbol shows \<open>SYMBOL/USDT: \<close> followed by the price as
  the specification trims it: all trailing \<open>0\<close> characters stripped, then one trailing
  \<open>.\<close> if one remains. What is removed is a run of zeroes at the end, with or without the
  decimal point before it, and the digits before the decimal point are those of the
  raw price.
\<close>

theorem C7_decimal_price_display:
  assumes dot: "CHR ''.'' \<in> set price"
    and reply: "get (apiUrl w @ symbol @ ''USDT'') = Inr resp"
      "Decode (body resp) = (data, None)" "data ''price'' = Some price"
    and label: "priceLabels w symbol = Some l" "l < length (labels w)"
  shows "labels (updateLabel describe get symbol w) ! l = symbol @ ''/USDT: '' @ specTrim price \<and>
    ((\<exists>n. price = specTrim price @ replicate n (CHR ''0'')) \<or>
     (\<exists>n. price = specTrim price @ CHR ''.'' # replicate n (CHR ''0''))) \<and>
    takeWhile (\<lambda>c. c \<noteq> CHR ''.'') (specTrim price) = takeWhile (\<lambda>c. c \<noteq> CHR ''.'') price"
proof -
  have "labels (updateLabel describe get symbol w) ! l = priceText symbol price"
    using reply SetText_label [OF label] by (simp add: updateLabel_price [where data = data])
  then have "labels (updateLabel describe get symbol w) ! l = symbol @ ''/USDT: '' @ specTrim price"
    by (simp add: priceText_def trimPrice_specTrim)
  then show ?thesis
    using specTrim_shape [of price] specTrim_integer_part [OF dot] by simp
qed

theorem C7_decimal_price_display_witness:
  \<open>CHR ''.'' \<in> set ''123.45000'' \<and>
   labels (updateLabel (\<lambda>err. ''timeout'')
      (\<lambda>url. Inr \<lparr>statusCode = 200, body = ''{"symbol":"BTCUSDT","price":"123.45000"}''\<rparr>)
      ''BTC'' (NewBinanceWidget [''BTC''])) ! 0 = ''BTC/USDT: 123.45'' \<and>
   trimPrice ''100.00000'' = ''100'' \<and> trimPrice ''0.00010000'' = ''0.0001''\<close>
proof -
  let ?body = \<open>''{"symbol":"BTCUSDT","price":"123.45000"}''\<close>
  let ?get = "\<lambda>url::string. Inr \<lparr>statusCode = 200, body = ?body\<rparr> :: error + response"
  let ?w = "NewBinanceWidget [''BTC'']"
  have dot: "CHR ''.'' \<in> set ''123.45000''"
    by simp
  have reply: "?get (apiUrl ?w @ ''BTC'' @ ''USDT'') = Inr \<lparr>statusCode = 200, body = ?body\<rparr>"
    by simp
  have "snd (Decode ?body) = None"
    by code_simp
  then have decoded: "Decode (body \<lparr>statusCode = 200, body = ?body\<rparr>) = (fst (Decode ?body), None)"
    by (simp add: prod_eq_iff)
  have price: "fst (Decode ?body) ''price'' = Some ''123.45000''"
    by code_simp
  have label: "priceLabels ?w ''BTC'' = Some 0" "0 < length (labels ?w)"
    by (simp_all add: NewBinanceWidget_def)
  have trimmed: "specTrim ''123.45000'' = ''123.45''"
    by (simp add: specTrim_def stripTrailing_def)
  have others: "trimPrice ''100.00000'' = ''100''" "trimPrice ''0.00010000'' = ''0.0001''"
    by code_simp+
  from C7_decimal_price_display [OF dot reply decoded price label, of "\<lambda>err. ''timeout''"]
  show ?thesis
    using trimmed others by simp
qed

text \<open>
  Claim C1 (the code departs from it). The claim: a raw price without a decimal point is
  displayed unchanged, \<open>100\<close> as \<open>100\<close>. The code trims the zeroes of the whole string:
  the price \<open>100\<close> is displayed as \<open>1\<close>, and every raw price that ends in \<open>0\<close> loses
  at least that character, whether it has a decimal point or not.
\<close>

theorem C1_integer_price_loses_zeroes:
  \<open>trimPrice ''100'' = ''1'' \<and>
   labels (updateLabel describe
      (\<lambda>url. Inr \<lparr>statusCode = 200, body = ''{"symbol":"BTCUSDT","price":"100"}''\<rparr>)
      ''BTC'' (NewBinanceWidget [''BTC''])) = [''BTC/USDT: 1''] \<and>
   (\<forall>digits. length (trimPrice (digits @ ''0'')) \<le> length digits)\<close>
proof -
  have a: "trimPrice ''100'' = ''1''"
    by code_simp
  have b: \<open>labels (updateLabel describe
      (\<lambda>url. Inr \<lparr>statusCode = 200, body = ''{"symbol":"BTCUSDT","price":"100"}''\<rparr>)
      ''BTC'' (NewBinanceWidget [''BTC''])) = [''BTC/USDT: 1'']\<close>
    by code_simp
  have c: "length (trimPrice (digits @ ''0'')) \<le> length digits" for digits
    using length_specTrim [of "digits @ ''0''"] length_stripTrailing [of "CHR ''0''" digits]
    by (simp add: trimPrice_specTrim stripTrailing_snoc)
  from a b c show ?thesis by blast
qed

section \<open>Properties of the configuration load\<close>

lemma exampleWorld_file: "files (exampleWorld n) (configPath (exampleWorld n)) = n"
  by (simp add: exampleWorld_def configPath_def)

lemma derefAll_Some: "derefAll acc (map Some strs) = Returns (acc @ strs)"
  by (induction strs arbitrary: acc) simp_all

lemma derefAll_None: "None \<in> set ptrs \<Longrightarrow> derefAll acc ptrs = Panics"
  by (induction acc ptrs rule: derefAll.induct) auto

lemma storePtr_None: "storePtr v = None \<longleftrightarrow> v = JNull"
  by (cases v) simp_all

lemma Unmarshal_array:
  "checkValid content = Some (JArray vs) \<Longrightarrow> Unmarshal content = (map storePtr vs, savedError vs)"
  by (simp add: Unmarshal_def)

lemma Unmarshal_invalid:
  "checkValid content = None \<Longrightarrow> Unmarshal content = ([], Some (SyntaxError content))"
  by (simp add: Unmarshal_def)

lemma not_json_invalid: "checkValid ''not json'' = None"
  by code_simp

lemma load_contents:
  assumes "files w (configPath w) = Opens (Contents content)"
  shows "loadSymbolsFromConfig describe w =
    (case derefAll [] (fst (Unmarshal content)) of
       Panics \<Rightarrow> (Panics, w)
     | Returns strs \<Rightarrow> (Returns (strs, None), w))"
  using assms by (simp add: loadSymbolsFromConfig_def parseSymbolsFromConfig_def)

text \<open>
  Claim C2 (the code departs from it). The claim: a configuration file that is not a
  JSON array of strings, such as the text \<open>not json\<close>, makes the load return an error.
  \<^verbatim>\<open>Unmarshal\<close> does report the syntax error, but line 211 drops it: whatever the file
  holds, the load returns no error, and for a text that is not valid JSON, \<open>not json\<close>
  among them, it returns the empty list, on which \<^verbatim>\<open>main\<close> makes a widget without symbols.
\<close>

theorem C2_malformed_config_no_error:
  assumes "files w (configPath w) = Opens (Contents content)"
  shows "(\<forall>syms err. fst (loadSymbolsFromConfig describe w) \<noteq> Returns (syms, Some err)) \<and>
    (checkValid content = None \<longrightarrow>
       Unmarshal content = ([], Some (SyntaxError content)) \<and>
       loadSymbolsFromConfig describe w = (Returns ([], None), w) \<and>
       main describe w = Widget [])"
proof -
  have "fst (loadSymbolsFromConfig describe w) \<noteq> Returns (syms, Some err)" for syms err
    by (cases "derefAll [] (fst (Unmarshal content))") (simp_all add: load_contents [OF assms])
  moreover have "Unmarshal content = ([], Some (SyntaxError content)) \<and>
       loadSymbolsFromConfig describe w = (Returns ([], None), w) \<and>
       main describe w = Widget []"
    if "checkValid content = None"
  proof -
    have u: "Unmarshal content = ([], Some (SyntaxError content))"
      by (rule Unmarshal_invalid [OF that])
    then have "loadSymbolsFromConfig describe w = (Returns ([], None), w)"
      by (simp add: load_contents [OF assms])
    then show ?thesis using u by (simp add: main_def)
  qed
  ultimately show ?thesis by blast
qed

theorem C2_malformed_config_no_error_witness:
  "files (exampleWorld (Opens (Contents ''not json'')))
      (configPath (exampleWorld (Opens (Contents ''not json'')))) = Opens (Contents ''not json'') \<and>
   checkValid ''not json'' = None \<and>
   fst (loadSymbolsFromConfig (\<lambda>err. ''syntax error'') (exampleWorld (Opens (Contents ''not json''))))
     = Returns ([], None) \<and>
   main (\<lambda>err. ''syntax error'') (exampleWorld (Opens (Contents ''not json''))) = Widget []"
  using C2_malformed_config_no_error [OF exampleWorld_file,
      where describe = "\<lambda>err. ''syntax error''" and content = "''not json''"]
    not_json_invalid
  by (simp add: exampleWorld_file)

text \<open>
  Claim C10. A configuration file that holds a valid JSON array with a \<^verbatim>\<open>null\<close> element
  makes the load panic: \<^verbatim>\<open>Unmarshal\<close> leaves a nil pointer in the slice for the element, and
  the loop of line 187 dereferences it. So it is with the file \<^verbatim>\<open>["BTC", null]\<close>.
\<close>

theorem C10_null_element_panics:
  assumes "files w (configPath w) = Opens (Contents content)"
    and "checkValid content = Some (JArray vs)"
    and "JNull \<in> set vs"
  shows "fst (loadSymbolsFromConfig describe w) = Panics \<and> main describe w = Panicked"
proof -
  have "None \<in> set (map storePtr vs)"
    using assms(3) by (force simp: storePtr_None)
  then have "derefAll [] (fst (Unmarshal content)) = Panics"
    by (simp add: Unmarshal_array [OF assms(2)] derefAll_None)
  then have "fst (loadSymbolsFromConfig describe w) = Panics"
    by (simp add: load_contents [OF assms(1)])
  then show ?thesis by (simp add: main_def)
qed

theorem C10_null_element_panics_witness:
  \<open>files (exampleWorld (Opens (Contents ''["BTC", null]'')))
      (configPath (exampleWorld (Opens (Contents ''["BTC", null]''))))
     = Opens (Contents ''["BTC", null]'') \<and>
   checkValid ''["BTC", null]'' = Some (JArray [JString ''BTC'', JNull]) \<and>
   JNull \<in> set [JString ''BTC'', JNull] \<and>
   fst (loadSymbolsFromConfig (\<lambda>err. []) (exampleWorld (Opens (Contents ''["BTC", null]''))))
     = Panics \<and>
   main (\<lambda>err. []) (exampleWorld (Opens (Contents ''["BTC", null]''))) = Panicked\<close>
proof -
  have valid: \<open>checkValid ''["BTC", null]'' = Some (JArray [JString ''BTC'', JNull])\<close>
    by code_simp
  have null: "JNull \<in> set [JString ''BTC'', JNull]"
    by simp
  from C10_null_element_panics [OF exampleWorld_file valid null, of "\<lambda>err. []"]
  show ?thesis
    using valid by (simp add: exampleWorld_file)
qed

text \<open>
  Claim C8. When the configuration file exists and \<^verbatim>\<open>os.Open\<close> fails for another reason
  than its absence, the load prints the error on the standard output, changes nothing
  else, and returns the default symbols with no error: \<^verbatim>\<open>main\<close> goes on to make the widget
  for the default symbols.
\<close>

theorem C8_open_failure_gives_defaults:
  assumes "files w (configPath w) = OpenFails err"
  shows "loadSymbolsFromConfig describe w =
      (Returns ([''BTC'', ''ETH'', ''SOL''], None),
       w\<lparr>stdout := stdout w @ ''Error opening config file: '' @ describe err @ [newline]\<rparr>) \<and>
    main describe w = Widget [''BTC'', ''ETH'', ''SOL'']"
  using assms by (simp add: loadSymbolsFromConfig_def main_def Print_def defaultSymbols_def)

theorem C8_open_failure_gives_defaults_witness:
  "files (exampleWorld (OpenFails (OSError ''permission denied'')))
      (configPath (exampleWorld (OpenFails (OSError ''permission denied''))))
     = OpenFails (OSError ''permission denied'') \<and>
   fst (loadSymbolsFromConfig (\<lambda>err. ''permission denied'')
      (exampleWorld (OpenFails (OSError ''permission denied''))))
     = Returns ([''BTC'', ''ETH'', ''SOL''], None) \<and>
   stdout (snd (loadSymbolsFromConfig (\<lambda>err. ''permission denied'')
      (exampleWorld (OpenFails (OSError ''permission denied'')))))
     = ''Error opening config file: permission denied'' @ [newline] \<and>
   main (\<lambda>err. ''permission denied'') (exampleWorld (OpenFails (OSError ''permission denied'')))
     = Widget [''BTC'', ''ETH'', ''SOL'']"
  using C8_open_failure_gives_defaults [OF exampleWorld_file, of "\<lambda>err. ''permission denied''"]
  by (simp add: exampleWorld_file) (simp add: exampleWorld_def)

lemma Marshal_defaultSymbols: \<open>Marshal defaultSymbols = ''["BTC","ETH","SOL"]''\<close>
  by code_simp

lemma checkValid_default_config:
  \<open>checkValid ''["BTC","ETH","SOL"]'' = Some (JArray (map JString [''BTC'', ''ETH'', ''SOL'']))\<close>
  by code_simp

lemma load_array_of_strings:
  assumes "files w (configPath w) = Opens (Contents content)"
    and "checkValid content = Some (JArray (map JString syms))"
  shows "loadSymbolsFromConfig describe w = (Returns (syms, None), w)"
proof -
  have "map storePtr (map JString syms) = map Some syms"
    by simp
  then have "fst (Unmarshal content) = map Some syms"
    by (simp only: Unmarshal_array [OF assms(2)] fst_conv)
  then have "derefAll [] (fst (Unmarshal content)) = Returns syms"
    by (simp add: derefAll_Some)
  then show ?thesis
    by (simp add: load_contents [OF assms(1)])
qed

lemma load_not_exist:
  assumes "files w (configPath w) = NotExist"
  shows "loadSymbolsFromConfig describe w =
    (Returns (defaultSymbols, None),
     snd (createDefaultConfig (configPath w)
       (Print (''Config file not found, creating a new one with default symbols: ''
          @ formatSlice defaultSymbols @ [newline]) w)))"
  using assms by (simp add: loadSymbolsFromConfig_def Let_def)

text \<open>
  Claim C4. When no configuration file exists, the load returns the default symbols
  with no error, whether the file can be written or not, and \<^verbatim>\<open>main\<close> makes the widget for
  them. When the write succeeds, the file system afterwards differs from the one before
  in the configuration file alone, whose content is exactly \<^verbatim>\<open>["BTC","ETH","SOL"]\<close>, and a
  second load reads that file back as the default symbols.
\<close>

theorem C4_default_bootstrap:
  assumes "files w (configPath w) = NotExist"
  shows \<open>fst (loadSymbolsFromConfig describe w) = Returns ([''BTC'', ''ETH'', ''SOL''], None) \<and>
    main describe w = Widget [''BTC'', ''ETH'', ''SOL''] \<and>
    (writeFails w (configPath w) = None \<longrightarrow>
       files (snd (loadSymbolsFromConfig describe w)) =
         (files w)(configPath w := Opens (Contents ''["BTC","ETH","SOL"]'')) \<and>
       fst (loadSymbolsFromConfig describe (snd (loadSymbolsFromConfig describe w))) =
         Returns ([''BTC'', ''ETH'', ''SOL''], None))\<close>
proof -
  let ?w' = "snd (loadSymbolsFromConfig describe w)"
  have ret: "fst (loadSymbolsFromConfig describe w) = Returns ([''BTC'', ''ETH'', ''SOL''], None)"
    by (simp add: load_not_exist [OF assms] defaultSymbols_def)
  then have start: "main describe w = Widget [''BTC'', ''ETH'', ''SOL'']"
    by (simp add: main_def)
  have again: \<open>files ?w' = (files w)(configPath w := Opens (Contents ''["BTC","ETH","SOL"]'')) \<and>
      fst (loadSymbolsFromConfig describe ?w') = Returns ([''BTC'', ''ETH'', ''SOL''], None)\<close>
    if ok: "writeFails w (configPath w) = None"
  proof -
    have written: \<open>files ?w' = (files w)(configPath w := Opens (Contents ''["BTC","ETH","SOL"]''))\<close>
      using ok
      by (simp add: load_not_exist [OF assms] createDefaultConfig_def Print_def
          Marshal_defaultSymbols)
    have "homeDir ?w' = homeDir w"
      using ok by (simp add: load_not_exist [OF assms] createDefaultConfig_def Print_def)
    then have "configPath ?w' = configPath w"
      by (simp add: configPath_def)
    with written have \<open>files ?w' (configPath ?w') = Opens (Contents ''["BTC","ETH","SOL"]'')\<close>
      by simp
    from load_array_of_strings [OF this checkValid_default_config] written
    show ?thesis by simp
  qed
  from ret start again show ?thesis by blast
qed

theorem C4_default_bootstrap_witness:
  \<open>files (exampleWorld NotExist) (configPath (exampleWorld NotExist)) = NotExist \<and>
   writeFails (exampleWorld NotExist) (configPath (exampleWorld NotExist)) = None \<and>
   fst (loadSymbolsFromConfig (\<lambda>err. []) (exampleWorld NotExist))
     = Returns ([''BTC'', ''ETH'', ''SOL''], None) \<and>
   files (snd (loadSymbolsFromConfig (\<lambda>err. []) (exampleWorld NotExist)))
      ''/home/user/.pricetrack.json'' = Opens (Contents ''["BTC","ETH","SOL"]'') \<and>
   fst (loadSymbolsFromConfig (\<lambda>err. [])
      ((exampleWorld NotExist)\<lparr>writeFails := \<lambda>path. Some (OSError ''read-only file system'')\<rparr>))
     = Returns ([''BTC'', ''ETH'', ''SOL''], None)\<close>
proof -
  have missing: "files (exampleWorld NotExist) (configPath (exampleWorld NotExist)) = NotExist"
    by (rule exampleWorld_file)
  have writable: "writeFails (exampleWorld NotExist) (configPath (exampleWorld NotExist)) = None"
    by (simp add: exampleWorld_def)
  have path: "configPath (exampleWorld NotExist) = ''/home/user/.pricetrack.json''"
    by (simp add: exampleWorld_def configPath_def)
  let ?ro = "(exampleWorld NotExist)\<lparr>writeFails := \<lambda>path. Some (OSError ''read-only file system'')\<rparr>"
  have missing_ro: "files ?ro (configPath ?ro) = NotExist"
    by (simp add: exampleWorld_def configPath_def)
  from C4_default_bootstrap [OF missing, of "\<lambda>err. []"]
    C4_default_bootstrap [OF missing_ro, of "\<lambda>err. []"]
  show ?thesis
    using missing writable path by simp
qed





lemma htmlSafe_facts:
  assumes "htmlSafe c"
  shows "byte c < 0x80" "\<not> byte c < 0x20" "c \<noteq> dquote" "c \<noteq> backslash"
  using assms by (simp_all add: htmlSafe_def)

lemma appendString_plain: "list_all htmlSafe str \<Longrightarrow> appendString str = str"
  by (induction str) (simp_all add: htmlSafe_facts)

lemma scanString_plain:
  "list_all htmlSafe str \<Longrightarrow> scanString (str @ dquote # rest) = Some str"
  by (induction str) (simp_all add: htmlSafe_facts)

lemma unquote_plain: "list_all htmlSafe str \<Longrightarrow> unquote str = Some str"
  by (induction str) (simp_all add: htmlSafe_facts)

lemma tokenize_quoteString:
  assumes "list_all htmlSafe str"
  shows "tokenize (quoteString str @ rest) = TStr str # tokenize rest"
proof -
  have "quoteString str @ rest = dquote # (str @ dquote # rest)"
    by (simp add: quoteString_def appendString_plain [OF assms])
  then show ?thesis
    by (simp add: isSpace_def scanString_plain [OF assms] unquote_plain [OF assms])
qed

lemma tokenize_comma: "tokenize (CHR '','' # rest) = TComma # tokenize rest"
  by (simp add: isSpace_def)

lemma tokenize_elements:
  assumes "list_all (list_all htmlSafe) (x # xs)"
  shows "tokenize (joinWith '','' (map quoteString (x # xs)) @ rest) =
    TStr x # concat (map (\<lambda>str. [TComma, TStr str]) xs) @ tokenize rest"
  using assms
proof (induction xs arbitrary: x)
  case Nil
  then show ?case by (simp add: tokenize_quoteString)
next
  case (Cons y ys)
  then have x: "list_all htmlSafe x" and rest: "list_all (list_all htmlSafe) (y # ys)"
    by simp_all
  have "tokenize (joinWith '','' (map quoteString (x # y # ys)) @ rest) =
      tokenize (quoteString x @ CHR '','' # (joinWith '','' (map quoteString (y # ys)) @ rest))"
    by simp
  also have "\<dots> = TStr x # TComma # tokenize (joinWith '','' (map quoteString (y # ys)) @ rest)"
    by (simp only: tokenize_quoteString [OF x] tokenize_comma)
  finally show ?case
    using Cons.IH [OF rest] by simp
qed

lemma scanValue_elements:
  "scanValue CommaOrEnd [InArray acc] (concat (map (\<lambda>str. [TComma, TStr str]) xs) @ [TRBrack]) =
     Some (JArray (rev acc @ map JString xs), [])"
  by (induction xs arbitrary: acc) (simp_all add: endArray_def beginValue_def)

lemma scanValue_array:
  "scanValue Value [] (TLBrack # (case syms of [] \<Rightarrow> [] | x # xs \<Rightarrow>
       TStr x # concat (map (\<lambda>str. [TComma, TStr str]) xs)) @ [TRBrack]) =
     Some (JArray (map JString syms), [])"
proof (cases syms)
  case Nil
  then show ?thesis
    by (simp add: beginValue_def pushParseState_def maxNestingDepth_def endArray_def)
next
  case (Cons x xs)
  then show ?thesis
    by (simp add: beginValue_def pushParseState_def maxNestingDepth_def scanValue_elements)
qed

lemma tokenize_Marshal:
  assumes "list_all (list_all htmlSafe) syms"
  shows "tokenize (Marshal syms) = TLBrack # (case syms of [] \<Rightarrow> [] | x # xs \<Rightarrow>
       TStr x # concat (map (\<lambda>str. [TComma, TStr str]) xs)) @ [TRBrack]"
proof (cases syms)
  case Nil
  then show ?thesis
    by (simp add: Marshal_def isSpace_def)
next
  case (Cons x xs)
  have "tokenize (Marshal syms) = TLBrack # tokenize (joinWith '','' (map quoteString (x # xs)) @ '']'')"
    using Cons by (simp add: Marshal_def isSpace_def)
  also have "\<dots> = TLBrack # TStr x # concat (map (\<lambda>str. [TComma, TStr str]) xs) @ tokenize '']''"
    using assms Cons by (simp only: tokenize_elements)
  also have "tokenize '']'' = [TRBrack]"
    by (simp add: isSpace_def)
  finally show ?thesis using Cons by simp
qed

lemma checkValid_Marshal:
  assumes "list_all (list_all htmlSafe) syms"
  shows "checkValid (Marshal syms) = Some (JArray (map JString syms))"
  by (simp only: checkValid_def tokenize_Marshal [OF assms] scanValue_array) simp

text \<open>
  Claim C6. When the configuration file holds a valid JSON array whose elements are all
  strings, the load returns exactly these strings, in the order of the file and with
  repeated entries kept, with no error, and leaves the surroundings as they were. So it
  is for the text \<^verbatim>\<open>json.Marshal\<close> writes for a list of symbols made of plain ASCII
  characters: reading the file gives the list back.
\<close>

theorem C6_config_round_trip:
  assumes "files w (configPath w) = Opens (Contents content)"
  shows "(checkValid content = Some (JArray (map JString syms)) \<longrightarrow>
      loadSymbolsFromConfig describe w = (Returns (syms, None), w)) \<and>
    (list_all (list_all htmlSafe) syms \<and> content = Marshal syms \<longrightarrow>
      loadSymbolsFromConfig describe w = (Returns (syms, None), w))"
  using load_array_of_strings [OF assms] checkValid_Marshal [of syms] by blast

theorem C6_config_round_trip_witness:
  \<open>files (exampleWorld (Opens (Contents ''["TRX","PEPE","SOL","BNB"]'')))
      (configPath (exampleWorld (Opens (Contents ''["TRX","PEPE","SOL","BNB"]''))))
     = Opens (Contents ''["TRX","PEPE","SOL","BNB"]'') \<and>
   checkValid ''["TRX","PEPE","SOL","BNB"]''
     = Some (JArray (map JString [''TRX'', ''PEPE'', ''SOL'', ''BNB''])) \<and>
   list_all (list_all htmlSafe) [''TRX'', ''PEPE'', ''SOL'', ''BNB''] \<and>
   ''["TRX","PEPE","SOL","BNB"]'' = Marshal [''TRX'', ''PEPE'', ''SOL'', ''BNB''] \<and>
   fst (loadSymbolsFromConfig (\<lambda>err. []) (exampleWorld (Opens (Contents ''["TRX","PEPE","SOL","BNB"]''))))
     = Returns ([''TRX'', ''PEPE'', ''SOL'', ''BNB''], None) \<and>
   checkValid ''[ "SOL", "BTC" ,"SOL" ]''
     = Some (JArray (map JString [''SOL'', ''BTC'', ''SOL''])) \<and>
   fst (loadSymbolsFromConfig (\<lambda>err. []) (exampleWorld (Opens (Contents ''[ "SOL", "BTC" ,"SOL" ]''))))
     = Returns ([''SOL'', ''BTC'', ''SOL''], None)\<close>
proof -
  have valid: \<open>checkValid ''["TRX","PEPE","SOL","BNB"]''
      = Some (JArray (map JString [''TRX'', ''PEPE'', ''SOL'', ''BNB'']))\<close>
    by code_simp
  have plain: "list_all (list_all htmlSafe) [''TRX'', ''PEPE'', ''SOL'', ''BNB'']"
    by code_simp
  have written: \<open>''["TRX","PEPE","SOL","BNB"]'' = Marshal [''TRX'', ''PEPE'', ''SOL'', ''BNB'']\<close>
    by code_simp
  have repeated: \<open>checkValid ''[ "SOL", "BTC" ,"SOL" ]''
      = Some (JArray (map JString [''SOL'', ''BTC'', ''SOL'']))\<close>
    by code_simp
  from C6_config_round_trip [OF exampleWorld_file, of _ "[''TRX'', ''PEPE'', ''SOL'', ''BNB'']" "\<lambda>err. []"]
    C6_config_round_trip [OF exampleWorld_file, of _ "[''SOL'', ''BTC'', ''SOL'']" "\<lambda>err. []"]
  show ?thesis
    using valid plain written repeated by (simp add: exampleWorld_file)
qed

section \<open>Properties of the refresh cycle\<close>

lemma step_frame:
  assumes "cycleStep describe get c c'"
  shows "priceLabels (widget c') = priceLabels (widget c) \<and>
    apiUrl (widget c') = apiUrl (widget c) \<and>
    symbols (widget c') = symbols (widget c) \<and>
    length (labels (widget c')) = length (labels (widget c))"
  using assms
  by cases (auto simp: updateLabel_def SetText_def split: sum.splits option.splits prod.splits)

lemma run_frame:
  assumes "(cycleStep describe get)\<^sup>*\<^sup>* (enter w) c"
  shows "priceLabels (widget c) = priceLabels w \<and> apiUrl (widget c) = apiUrl w \<and>
    symbols (widget c) = symbols w \<and> length (labels (widget c)) = length (labels w)"
  using assms
proof (induction rule: rtranclp_induct)
  case base
  show ?case by (simp add: enter_def)
next
  case (step c c')
  then show ?case using step_frame [of describe get c c'] by simp
qed








lemma labelled_cycle:
  assumes "(cycleStep describe get)\<^sup>*\<^sup>* (enter w) c" and "labelled w"
  shows "labelled (widget c)"
proof -
  from run_frame [OF assms(1)]
  have same: "priceLabels (widget c) = priceLabels w" "symbols (widget c) = symbols w"
    "length (labels (widget c)) = length (labels w)"
    by simp_all
  from assms(2) show ?thesis
    unfolding labelled_def same .
qed














end
